theory Spec2Isabelle
  imports Main
begin

section \<open>The suggestion queue of queuebot: data model\<close>

text \<open>
  The embedding follows \<^verbatim>\<open>queuebot/cogs/queue/suggestion.py\<close> (class \<^verbatim>\<open>Suggestion\<close>) and
  \<^verbatim>\<open>queuebot/cogs/queue/__init__.py\<close> (cog \<^verbatim>\<open>BlobQueue\<close>).

  What the model covers and what it takes for granted:
  \<^item> The two tables are lists of rows; \<^verbatim>\<open>UPDATE ... WHERE idx = $1\<close> rewrites the rows with
    that \<open>idx\<close>, \<^verbatim>\<open>fetchrow\<close> returns the first match. The schema is not part of the
    sources: counters are unbounded integers with no constraint, and the default of the
    flag columns of \<^verbatim>\<open>council_votes\<close> is a parameter.
  \<^item> A method runs from its first statement to its last without another one running in
    between (the cog holds \<^verbatim>\<open>voting_lock\<close> around \<^verbatim>\<open>process_vote\<close>).
  \<^item> Calls to the chat gateway are recorded in the order they are made and succeed,
    except where the source handles or depends on the outcome: the lookup of a message
    (\<open>message_found\<close>), the direct message to the submitter (\<open>can_dm\<close>), and the two
    cache lookups (\<open>get_emoji\<close>, \<open>get_user\<close>).
  \<^item> Texts are kept by their constant part; local logging is left out.

  A row of the table \<^verbatim>\<open>suggestions\<close>, with the columns the modelled methods read or
  write. \<^verbatim>\<open>council_approved\<close> is the three-valued state: NULL (\<open>None\<close>) is the private
  council queue (pending), TRUE the public approval queue, FALSE denied.
\<close>

record row =
  idx :: nat
  user_id :: nat
  emoji_id :: nat
  upvotes :: int
  downvotes :: int
  council_approved :: "bool option"
  public_message_id :: "nat option"
  council_message_id :: "nat option"
  suggestions_message_id :: "nat option"
  forced_reason :: "string option"
  forced_by :: "nat option"
  validation_time :: "nat option"
  revoked :: bool

text \<open>A row of the table \<^verbatim>\<open>council_votes\<close>; the key is (suggestion_index, user_id).\<close>

record vote =
  suggestion_index :: nat
  voter :: nat
  has_approved :: "bool option"
  has_denied :: "bool option"

text \<open>\<^verbatim>\<open>Suggestion.VoteType\<close> and its property \<^verbatim>\<open>operator\<close> (\<^verbatim>\<open>'+' if self is self.YAY else '-'\<close>),
  which \<^verbatim>\<open>process_vote\<close> splices into \<^verbatim>\<open>SET col = col <operator> 1\<close>. The direction of a
  vote comes from the emoji; the vote type says whether the vote is added or taken back:
  \<open>YAY\<close> adds one and stores \<^verbatim>\<open>TRUE\<close> (the cast), \<open>NAY\<close> subtracts one and stores \<^verbatim>\<open>FALSE\<close>
  (the revoke). The listeners of the cog call the two \<^verbatim>\<open>VoteType.CAST\<close> and
  \<^verbatim>\<open>VoteType.REVOKE\<close>, names this enumeration does not declare.\<close>

datatype VoteType = YAY | NAY

fun operator :: "VoteType \<Rightarrow> int \<Rightarrow> int \<Rightarrow> int" where
  "operator YAY a b = a + b"
| "operator NAY a b = a - b"

datatype error =
    OperationError string
  | RuntimeError string
  | NotFound
  | TypeError
  | AttributeError
  | HTTPException

datatype channel = CouncilQueue | ApprovalQueue | SuggestionsChannel | CouncilChangelog

text \<open>The calls made to the chat gateway, in the order they are made. Texts are kept by
  their constant part.\<close>

datatype reaction = ApproveEmoji | DenyEmoji | Keycap nat

datatype effect =
    BotLog string
  | ChannelSend channel string
  | AddReaction nat reaction
  | DeleteMessage channel "nat option"
  | CreateEmoji nat
  | DeleteEmoji nat
  | DirectMessage nat string
  | CtxSend string
  | CtxSendMerge "(nat \<times> int \<times> int) list"
  | Confirm string

text \<open>
  What the methods read from \<^verbatim>\<open>self.bot\<close> and from the outside: the bot's own user id,
  the configuration values (the ids of the two queue channels and of the two emoji, the
  thresholds),
  the emoji and user caches (\<open>get_emoji\<close>, \<open>get_user\<close>: whether the lookup returns an
  object), whether a direct message can be delivered, whether the gateway finds a message,
  the clock, and the default of the two flag columns of \<^verbatim>\<open>council_votes\<close> (the schema is
  not part of the sources, so the default is a parameter).
\<close>

record queuebot =
  bot_user_id :: nat
  council_queue :: nat
  approval_queue :: nat
  approve_emoji_id :: nat
  deny_emoji_id :: nat
  required_votes :: int
  required_difference :: int
  verbose_vs :: bool
  get_emoji :: "nat \<Rightarrow> bool"
  get_user :: "nat \<Rightarrow> bool"
  can_dm :: "nat \<Rightarrow> bool"
  message_found :: "channel \<Rightarrow> nat option \<Rightarrow> bool"
  utcnow :: nat
  flag_default :: "bool option"

text \<open>
  The state the methods act on: the \<^verbatim>\<open>record\<close> attribute of the \<^verbatim>\<open>Suggestion\<close> object
  (\<open>None\<close> after a refresh that found no row), the two tables, the gateway calls made so
  far, and the next identifier the gateway hands out.
\<close>

record world =
  self_record :: "row option"
  suggestions :: "row list"
  council_votes :: "vote list"
  effects :: "effect list"
  fresh :: nat

section \<open>Sequencing with exceptions\<close>

text \<open>A coroutine is a function from the state to a result and the state it leaves; an
  exception is \<open>Inl\<close> and keeps the writes made before it was raised.\<close>

type_synonym 'a action = "world \<Rightarrow> (error + 'a) \<times> world"

definition returnA :: "'a \<Rightarrow> 'a action" where
  "returnA x s = (Inr x, s)"

definition raiseA :: "error \<Rightarrow> 'a action" where
  "raiseA e s = (Inl e, s)"

definition bindA :: "'a action \<Rightarrow> ('a \<Rightarrow> 'b action) \<Rightarrow> 'b action" where
  "bindA m f s = (case m s of (Inl e, s') \<Rightarrow> (Inl e, s') | (Inr x, s') \<Rightarrow> f x s')"

primrec steps :: "unit action list \<Rightarrow> unit action" where
  "steps [] = returnA ()"
| "steps (m # ms) = bindA m (\<lambda>_. steps ms)"

definition emit :: "effect \<Rightarrow> unit action" where
  "emit e s = (Inr (), s\<lparr>effects := effects s @ [e]\<rparr>)"

definition new_id :: "nat action" where
  "new_id s = (Inr (fresh s), s\<lparr>fresh := Suc (fresh s)\<rparr>)"

text \<open>Subscripting \<^verbatim>\<open>self.record\<close>: a \<^verbatim>\<open>TypeError\<close> when it is \<^verbatim>\<open>None\<close>.\<close>

definition the_record :: "row action" where
  "the_record s = (case self_record s of None \<Rightarrow> (Inl TypeError, s) | Some r \<Rightarrow> (Inr r, s))"

text \<open>\<^verbatim>\<open>UPDATE suggestions SET ... WHERE idx = $1\<close>.\<close>

definition db_update :: "nat \<Rightarrow> (row \<Rightarrow> row) \<Rightarrow> unit action" where
  "db_update i f s =
     (Inr (), s\<lparr>suggestions := map (\<lambda>r. if idx r = i then f r else r) (suggestions s)\<rparr>)"

text \<open>\<^verbatim>\<open>SELECT * FROM suggestions WHERE idx = $1\<close>, first row.\<close>

definition fetchrow :: "nat \<Rightarrow> row list \<Rightarrow> row option" where
  "fetchrow i rows = find (\<lambda>r. idx r = i) rows"

definition update_inplace :: "unit action" where
  "update_inplace =
     bindA the_record (\<lambda>r s. (Inr (), s\<lparr>self_record := fetchrow (idx r) (suggestions s)\<rparr>))"

section \<open>Vote ledger and tally: \<^verbatim>\<open>Suggestion.process_vote\<close>\<close>

text \<open>
  \<^verbatim>\<open>INSERT INTO council_votes (suggestion_index, user_id, <column>) VALUES ($1, $2, <flag>)
  ON CONFLICT (suggestion_index, user_id) DO UPDATE SET <column> = <flag>\<close>:
  a row with the key has the one column overwritten, otherwise a row is added whose other
  flag takes the column default.
\<close>

definition set_flag :: "bool \<Rightarrow> bool \<Rightarrow> vote \<Rightarrow> vote" where
  "set_flag approval flag v =
     (if approval then v\<lparr>has_approved := Some flag\<rparr> else v\<lparr>has_denied := Some flag\<rparr>)"

definition has_key :: "nat \<Rightarrow> nat \<Rightarrow> vote \<Rightarrow> bool" where
  "has_key i who v \<longleftrightarrow> suggestion_index v = i \<and> voter v = who"

definition upsert :: "queuebot \<Rightarrow> nat \<Rightarrow> nat \<Rightarrow> bool \<Rightarrow> bool \<Rightarrow> vote list \<Rightarrow> vote list" where
  "upsert bt i who approval flag votes =
     (if list_ex (has_key i who) votes
      then map (\<lambda>v. if has_key i who v then set_flag approval flag v else v) votes
      else votes @ [set_flag approval flag
                  \<lparr>suggestion_index = i, voter = who,
                   has_approved = flag_default bt, has_denied = flag_default bt\<rparr>])"

definition upsert_council_vote :: "queuebot \<Rightarrow> nat \<Rightarrow> nat \<Rightarrow> bool \<Rightarrow> bool \<Rightarrow> unit action" where
  "upsert_council_vote bt i who approval flag s =
     (Inr (), s\<lparr>council_votes := upsert bt i who approval flag (council_votes s)\<rparr>)"

text \<open>\<^verbatim>\<open>Suggestion.delete_from_council_queue\<close>: fetch the council message (no handler
  around the fetch, so a message that the gateway does not find raises), delete it,
  set the column to NULL, refresh.\<close>

definition delete_from_council_queue :: "queuebot \<Rightarrow> unit action" where
  "delete_from_council_queue bt =
     bindA the_record (\<lambda>r.
       if \<not> message_found bt CouncilQueue (council_message_id r) then raiseA HTTPException
       else steps
         [emit (DeleteMessage CouncilQueue (council_message_id r)),
          bindA the_record (\<lambda>r'. db_update (idx r') (\<lambda>q. q\<lparr>council_message_id := None\<rparr>)),
          update_inplace])"

text \<open>\<^verbatim>\<open>Suggestion.delete_from_suggestions_channel\<close>: nothing when the id is falsy (NULL
  or 0); a gateway failure is caught and logged.\<close>

definition delete_from_suggestions_channel :: "queuebot \<Rightarrow> unit action" where
  "delete_from_suggestions_channel bt =
     bindA the_record (\<lambda>r.
       case suggestions_message_id r of
         None \<Rightarrow> returnA ()
       | Some m \<Rightarrow>
           if m = 0 then returnA ()
           else if message_found bt SuggestionsChannel (Some m)
             then emit (DeleteMessage SuggestionsChannel (Some m))
             else emit (BotLog ''Failed to delete suggestion message''))"

text \<open>\<^verbatim>\<open>Suggestion.move_to_public_queue(who, reason)\<close>. The only state check is
  \<^verbatim>\<open>is_in_public_queue\<close> (\<^verbatim>\<open>council_approved is True\<close>). An emoji that the cache does not
  resolve is logged and the method returns.\<close>

definition notify :: "queuebot \<Rightarrow> nat \<Rightarrow> string \<Rightarrow> string \<Rightarrow> unit action" where
  "notify bt u text warning =
     (if can_dm bt u then emit (DirectMessage u text) else emit (BotLog warning))"

definition move_to_public_queue :: "queuebot \<Rightarrow> nat option \<Rightarrow> string option \<Rightarrow> unit action" where
  "move_to_public_queue bt who reason =
     bindA the_record (\<lambda>r.
       if council_approved r = Some True then
         raiseA (OperationError ''Cannot move this suggestion to the public approval queue -- it is already in the public approval queue. '')
       else
         let user = get_user bt (user_id r); emoji = get_emoji bt (emoji_id r) in
         steps
           [if \<not> user then emit (BotLog ''SUBMITTER_NOT_FOUND move to PQ'') else returnA (),
            if \<not> emoji then emit (BotLog ''UPLOADED_EMOJI_NOT_FOUND move to PQ'')
            else steps
              [emit (ChannelSend CouncilChangelog ''moved to approval queue''),
               bindA new_id (\<lambda>msg. steps
                 [emit (ChannelSend ApprovalQueue ''emoji''),
                  emit (AddReaction msg ApproveEmoji),
                  emit (AddReaction msg DenyEmoji),
                  emit (DeleteEmoji (emoji_id r)),
                  delete_from_council_queue bt,
                  delete_from_suggestions_channel bt,
                  bindA the_record (\<lambda>r'.
                    db_update (idx r') (\<lambda>q. q\<lparr>public_message_id := Some msg,
                      council_approved := Some True, forced_reason := reason,
                      forced_by := who, validation_time := Some (utcnow bt)\<rparr>)),
                  update_inplace,
                  if user
                  then notify bt (user_id r) ''SUGGESTION_APPROVED''
                         ''Failed to DM about their approved emoji.''
                  else returnA ()])]])"

text \<open>\<^verbatim>\<open>Suggestion.deny(who, reason, revoke)\<close>. Both resolved states are refused; an emoji
  that the cache does not resolve is logged and raises \<^verbatim>\<open>RuntimeError\<close>.\<close>

definition deny :: "queuebot \<Rightarrow> nat option \<Rightarrow> string option \<Rightarrow> bool \<Rightarrow> unit action" where
  "deny bt who reason revoke =
     bindA the_record (\<lambda>r.
       if council_approved r = Some True then
         raiseA (OperationError ''Can't deny this suggestion -- it's already in the public queue.'')
       else if council_approved r = Some False then
         raiseA (OperationError ''Can't deny this suggestion -- it has already been denied.'')
       else
         let user = get_user bt (user_id r); emoji = get_emoji bt (emoji_id r) in
         if \<not> emoji then steps
           [emit (BotLog ''UPLOADED_EMOJI_NOT_FOUND deny''),
            raiseA (RuntimeError ''Error denying -- the uploaded emoji wasn't found.'')]
         else steps
           [if \<not> user then emit (BotLog ''SUBMITTER_NOT_FOUND deny'') else returnA (),
            db_update (idx r) (\<lambda>q. q\<lparr>council_approved := Some False, forced_reason := reason,
              forced_by := who, validation_time := Some (utcnow bt)\<rparr>),
            if revoke then db_update (idx r) (\<lambda>q. q\<lparr>revoked := True\<rparr>) else returnA (),
            update_inplace,
            emit (ChannelSend CouncilChangelog (if revoke then ''revoked'' else ''denied'')),
            emit (DeleteEmoji (emoji_id r)),
            delete_from_council_queue bt,
            delete_from_suggestions_channel bt,
            if user \<and> \<not> revoke
            then notify bt (user_id r) ''SUGGESTION_DENIED''
                   ''Failed to DM about their denied emoji.''
            else returnA ()])"

text \<open>\<^verbatim>\<open>Suggestion.reset_votes\<close>.\<close>

definition reset_votes :: "unit action" where
  "reset_votes =
     bindA the_record (\<lambda>r. steps
       [db_update (idx r) (\<lambda>q. q\<lparr>upvotes := 0, downvotes := 0\<rparr>),
        update_inplace])"

text \<open>\<^verbatim>\<open>Suggestion.check_council_votes\<close>, the resolution policy, with the branches in the
  order of the source.\<close>

definition check_council_votes :: "queuebot \<Rightarrow> unit action" where
  "check_council_votes bt =
     bindA the_record (\<lambda>r.
       let up = upvotes r; down = downvotes r in
       if up + down < required_votes bt then returnA ()
       else if up - down \<ge> required_difference bt then
         steps [reset_votes, move_to_public_queue bt None None]
       else if down - up \<ge> required_difference bt then
         deny bt None None False
       else returnA ())"

text \<open>\<^verbatim>\<open>Suggestion.process_vote(vote_emoji, vote_type, message_id, who)\<close>. The counter is
  moved first, by one in the direction of \<^verbatim>\<open>vote_type.operator\<close>; a suggestion that has a
  public message returns there; otherwise the reviewer's row is upserted and the policy
  runs. Any emoji other than the approve emoji counts against.\<close>

definition bump :: "bool \<Rightarrow> VoteType \<Rightarrow> row \<Rightarrow> row" where
  "bump approval vote_type q =
     (if approval then q\<lparr>upvotes := operator vote_type (upvotes q) 1\<rparr>
      else q\<lparr>downvotes := operator vote_type (downvotes q) 1\<rparr>)"

definition process_vote :: "queuebot \<Rightarrow> nat option \<Rightarrow> VoteType \<Rightarrow> nat \<Rightarrow> nat \<Rightarrow> unit action" where
  "process_vote bt vote_emoji vote_type message_id who =
     bindA the_record (\<lambda>r.
       let approval = (vote_emoji = Some (approve_emoji_id bt)) in
       steps
         [db_update (idx r) (bump approval vote_type),
          update_inplace,
          bindA the_record (\<lambda>r'.
            if public_message_id r' \<noteq> None then returnA ()
            else steps
              [upsert_council_vote bt (idx r') who approval (vote_type = YAY),
               check_council_votes bt])])"

section \<open>The council commands and the VS workflow: \<^verbatim>\<open>BlobQueue\<close>\<close>

subsection \<open>The reaction listeners\<close>

text \<open>
  Reading an attribute of the enumeration \<^verbatim>\<open>Suggestion.VoteType\<close> by name: the members are
  \<^verbatim>\<open>YAY\<close> and \<^verbatim>\<open>NAY\<close>; any other member name raises \<^verbatim>\<open>AttributeError\<close>.
\<close>

definition VoteType_member :: "string \<Rightarrow> VoteType action" where
  "VoteType_member name =
     (if name = ''YAY'' then returnA YAY
      else if name = ''NAY'' then returnA NAY
      else raiseA AttributeError)"

text \<open>What the listeners read of a raw reaction event: the id of the emoji (\<open>None\<close> for
  an emoji that is not a custom one), the channel, the message and the user.\<close>

record payload =
  p_emoji_id :: "nat option"
  p_channel_id :: nat
  p_message_id :: nat
  p_user_id :: nat

text \<open>\<^verbatim>\<open>BlobQueue.is_vote(emoji, channel_id)\<close>.\<close>

definition is_vote :: "queuebot \<Rightarrow> nat option \<Rightarrow> nat \<Rightarrow> bool" where
  "is_vote bt emoji_id' channel =
     (case emoji_id' of
        None \<Rightarrow> False
      | Some i \<Rightarrow>
          if i \<notin> set [approve_emoji_id bt, deny_emoji_id bt] then False
          else channel \<in> set [council_queue bt, approval_queue bt])"

text \<open>\<^verbatim>\<open>Suggestion.get_from_message(message_id)\<close>: the first row that has the message as its
  council message or as its public message, \<^verbatim>\<open>NotFound\<close> when there is none.\<close>

definition get_from_message :: "nat \<Rightarrow> row action" where
  "get_from_message m s =
     (case find (\<lambda>r. council_message_id r = Some m \<or> public_message_id r = Some m)
             (suggestions s) of
        None \<Rightarrow> (Inl NotFound, s)
      | Some r \<Rightarrow> (Inr r, s))"

text \<open>\<^verbatim>\<open>BlobQueue.process_raw_reaction(payload, vote_type)\<close>: reactions of the bot itself
  and reactions that are no votes are dropped; otherwise the suggestion is built from the
  row of the message and the vote is processed.\<close>

definition process_raw_reaction :: "queuebot \<Rightarrow> payload \<Rightarrow> VoteType \<Rightarrow> unit action" where
  "process_raw_reaction bt p vote_type =
     (if p_user_id p = bot_user_id bt \<or> \<not> is_vote bt (p_emoji_id p) (p_channel_id p)
      then returnA ()
      else bindA (get_from_message (p_message_id p)) (\<lambda>r s.
             process_vote bt (p_emoji_id p) vote_type (p_message_id p) (p_user_id p)
               (s\<lparr>self_record := Some r\<rparr>)))"

text \<open>\<^verbatim>\<open>BlobQueue.on_raw_reaction_add\<close> and \<^verbatim>\<open>BlobQueue.on_raw_reaction_remove\<close>: the argument
  \<^verbatim>\<open>Suggestion.VoteType.CAST\<close>, respectively \<^verbatim>\<open>Suggestion.VoteType.REVOKE\<close>, is read first,
  then \<^verbatim>\<open>process_raw_reaction\<close> is called with it.\<close>

definition on_raw_reaction_add :: "queuebot \<Rightarrow> payload \<Rightarrow> unit action" where
  "on_raw_reaction_add bt p =
     bindA (VoteType_member ''CAST'') (\<lambda>vote_type. process_raw_reaction bt p vote_type)"

definition on_raw_reaction_remove :: "queuebot \<Rightarrow> payload \<Rightarrow> unit action" where
  "on_raw_reaction_remove bt p =
     bindA (VoteType_member ''REVOKE'') (\<lambda>vote_type. process_raw_reaction bt p vote_type)"

subsection \<open>The commands\<close>

text \<open>\<^verbatim>\<open>BlobQueue.approve(ctx, suggestion, reason)\<close> and \<^verbatim>\<open>BlobQueue.deny(ctx, suggestion, reason)\<close>.
  \<open>confirmed\<close> is the answer of \<^verbatim>\<open>ctx.confirm\<close>; \<^verbatim>\<open>reason or None\<close> turns the empty text into
  \<^verbatim>\<open>None\<close>. An exception of the \<^verbatim>\<open>Suggestion\<close> method leaves the command before its report.\<close>

definition or_None :: "string option \<Rightarrow> string option" where
  "or_None reason = (if reason = Some [] then None else reason)"

definition approve_command :: "queuebot \<Rightarrow> nat \<Rightarrow> row \<Rightarrow> string option \<Rightarrow> bool \<Rightarrow> unit action" where
  "approve_command bt author suggestion reason confirmed s =
     bindA (emit (Confirm ''Are you sure that you want to **approve** this suggestion?''))
       (\<lambda>_. if \<not> confirmed then returnA ()
          else steps
            [move_to_public_queue bt (Some author) (or_None reason),
             bindA the_record (\<lambda>r. emit (BotLog ''force approved'')),
             bindA the_record (\<lambda>r. emit (CtxSend ''Successfully approved'')) ])
       (s\<lparr>self_record := Some suggestion\<rparr>)"

definition deny_command :: "queuebot \<Rightarrow> nat \<Rightarrow> row \<Rightarrow> string option \<Rightarrow> bool \<Rightarrow> unit action" where
  "deny_command bt author suggestion reason confirmed s =
     bindA (emit (Confirm ''Are you sure you want to **deny** this suggestion?''))
       (\<lambda>_. if \<not> confirmed then returnA ()
          else steps
            [deny bt (Some author) (or_None reason) False,
             bindA the_record (\<lambda>r. emit (BotLog ''force denied'')),
             bindA the_record (\<lambda>r. emit (CtxSend ''Successfully denied'')) ])
       (s\<lparr>self_record := Some suggestion\<rparr>)"

text \<open>
  An argument of \<^verbatim>\<open>vs\<close> is the tuple the converter hands over: the suggestion if there is
  one, the id the duplicate check compares (\<^verbatim>\<open>x[1]\<close>), the image URL, the name.
  \<^verbatim>\<open>Suggestion.remove_from_public_queue\<close> deletes the public message, or returns when the
  gateway does not find it; it writes nothing to the database.
\<close>

type_synonym entry = "row option \<times> nat \<times> string \<times> string"

definition remove_from_public_queue :: "queuebot \<Rightarrow> row \<Rightarrow> unit action" where
  "remove_from_public_queue bt r =
     (if message_found bt ApprovalQueue (public_message_id r)
      then emit (DeleteMessage ApprovalQueue (public_message_id r))
      else returnA ())"

text \<open>The three loops of \<^verbatim>\<open>vs\<close>: one temporary emoji per argument; one keycap reaction
  per temporary emoji, which is then deleted; one line of the merge report per argument
  that is a suggestion, whose public message is then removed.\<close>

primrec create_temp_emotes :: "entry list \<Rightarrow> nat list action" where
  "create_temp_emotes [] = returnA []"
| "create_temp_emotes (e # es) =
     bindA new_id (\<lambda>i. bindA (emit (CreateEmoji i)) (\<lambda>_.
       bindA (create_temp_emotes es) (\<lambda>rest. returnA (i # rest))))"

primrec delete_temp_emotes :: "nat list \<Rightarrow> unit action" where
  "delete_temp_emotes [] = returnA ()"
| "delete_temp_emotes (e # es) = bindA (emit (DeleteEmoji e)) (\<lambda>_. delete_temp_emotes es)"

fun react_and_delete :: "nat \<Rightarrow> nat \<Rightarrow> nat list \<Rightarrow> unit action" where
  "react_and_delete msg index [] = returnA ()"
| "react_and_delete msg index (e # es) =
     steps [emit (AddReaction msg (Keycap index)), emit (DeleteEmoji e),
            react_and_delete msg (Suc index) es]"

fun merge_entries :: "queuebot \<Rightarrow> entry list \<Rightarrow> (nat \<times> int \<times> int) list action" where
  "merge_entries bt [] = returnA []"
| "merge_entries bt ((None, x) # es) = merge_entries bt es"
| "merge_entries bt ((Some r, x) # es) =
     bindA (remove_from_public_queue bt r) (\<lambda>_.
       bindA (merge_entries bt es) (\<lambda>rest. returnA ((idx r, upvotes r, downvotes r) # rest)))"

text \<open>\<^verbatim>\<open>BlobQueue.vs(ctx, *emoji)\<close>. \<open>locked\<close> is \<^verbatim>\<open>self.vs_lock.locked()\<close> on entry, \<open>decision\<close>
  the answer of \<^verbatim>\<open>ctx.confirm\<close> (\<open>False\<close> for a refusal and for a timeout).
  \<^verbatim>\<open>len(set(x[1] for x in emoji))\<close> is the number of distinct ids.\<close>

definition vs :: "queuebot \<Rightarrow> bool \<Rightarrow> entry list \<Rightarrow> bool \<Rightarrow> unit action" where
  "vs bt locked emoji decision =
     (if locked then
        emit (CtxSend ''A VS command is already being run, or has been run too recently.'')
      else if length emoji < 2 then
        emit (CtxSend ''Need at least 2 emoji to do VS vote.'')
      else if length emoji > 6 then
        emit (CtxSend ''Refusing to do VS vote of greater than 6 emoji.'')
      else if length (remdups (map (\<lambda>x. fst (snd x)) emoji)) < length emoji then
        emit (CtxSend ''Can't have a VS vote with the same emoji appearing more than once.'')
      else
        bindA (create_temp_emotes emoji) (\<lambda>temp_emotes.
        bindA (emit (Confirm ''Create a VS vote?'')) (\<lambda>_.
          if \<not> decision then delete_temp_emotes temp_emotes
          else
            bindA new_id (\<lambda>vs_message. steps
              [emit (ChannelSend ApprovalQueue ''emote_sequence''),
               react_and_delete vs_message 1 temp_emotes,
               bindA (merge_entries bt emoji) (\<lambda>merge_list. emit (CtxSendMerge merge_list))]))))"

text \<open>The vote column of \<^verbatim>\<open>BlobQueue.vote_info\<close>:
  \<^verbatim>\<open>"Both" if approve and deny else ("Yes" if approve else "No")\<close>.\<close>

definition vote_label :: "vote \<Rightarrow> string" where
  "vote_label v =
     (if has_approved v = Some True \<and> has_denied v = Some True then ''Both''
      else if has_approved v = Some True then ''Yes'' else ''No'')"

section \<open>Vocabulary of the properties\<close>

text \<open>The tally of suggestion \<open>i\<close> as the table holds it.\<close>

definition tally :: "nat \<Rightarrow> world \<Rightarrow> (int \<times> int) option" where
  "tally i s = map_option (\<lambda>r. (upvotes r, downvotes r)) (fetchrow i (suggestions s))"

text \<open>A vote that leaves row \<open>r\<close> behind resolves nothing: the suggestion has a public
  message (\<^verbatim>\<open>process_vote\<close> returns before the policy), or the policy finds too few votes
  or too small a margin either way.\<close>

definition no_resolution :: "queuebot \<Rightarrow> row \<Rightarrow> bool" where
  "no_resolution bt r \<longleftrightarrow>
     public_message_id r \<noteq> None \<or>
     upvotes r + downvotes r < required_votes bt \<or>
     (upvotes r - downvotes r < required_difference bt \<and>
      downvotes r - upvotes r < required_difference bt)"

text \<open>An action keeps a component of the state when no run of it changes it, whether it
  returns or raises.\<close>

definition keeps :: "(world \<Rightarrow> 'x) \<Rightarrow> 'a action \<Rightarrow> bool" where
  "keeps g m \<longleftrightarrow> (\<forall>s. g (snd (m s)) = g s)"

text \<open>The key of a ledger row, and the row a reviewer stands with before a vote: the
  row of the table, or the row an insert would start from.\<close>

definition vote_key :: "vote \<Rightarrow> nat \<times> nat" where
  "vote_key v = (suggestion_index v, voter v)"

definition standing :: "queuebot \<Rightarrow> nat \<Rightarrow> nat \<Rightarrow> vote list \<Rightarrow> vote" where
  "standing bt i who votes =
     (case find (has_key i who) votes of
        None \<Rightarrow> \<lparr>suggestion_index = i, voter = who,
                  has_approved = flag_default bt, has_denied = flag_default bt\<rparr>
      | Some v \<Rightarrow> v)"

text \<open>An action is a ledger step of reviewer \<open>who\<close> when every run leaves the ledger as it
  was or as one upsert of that reviewer makes it.\<close>

definition ledger_step :: "queuebot \<Rightarrow> nat \<Rightarrow> 'a action \<Rightarrow> bool" where
  "ledger_step bt who m \<longleftrightarrow>
     (\<forall>s. council_votes (snd (m s)) = council_votes s \<or>
          (\<exists>i a f. council_votes (snd (m s)) = upsert bt i who a f (council_votes s)))"

text \<open>
  The resolution policy in the words of the specification (section 4.3), to compare
  \<^verbatim>\<open>check_council_votes\<close> with: no action if \<open>upvotes + downvotes < required_votes\<close>; promote
  if \<open>upvotes - downvotes \<ge> required_difference\<close>; deny if
  \<open>downvotes - upvotes \<ge> required_difference\<close>; otherwise no action. \<open>enact\<close> is what the
  source does for each outcome.
\<close>

datatype resolution = NoAction | Promote | Deny

definition resolution_policy :: "int \<Rightarrow> int \<Rightarrow> int \<Rightarrow> int \<Rightarrow> resolution" where
  "resolution_policy up down rv rd =
     (if up + down < rv then NoAction
      else if up - down \<ge> rd then Promote
      else if down - up \<ge> rd then Deny
      else NoAction)"

primrec enact :: "queuebot \<Rightarrow> resolution \<Rightarrow> unit action" where
  "enact bt NoAction = returnA ()"
| "enact bt Promote = steps [reset_votes, move_to_public_queue bt None None]"
| "enact bt Deny = deny bt None None False"

subsection \<open>Concrete inputs\<close>

text \<open>A configuration with the thresholds of the specification's example
  (\<^verbatim>\<open>required_votes = 5\<close>, \<^verbatim>\<open>required_difference = 3\<close>), approve emoji 1 and deny emoji 2, in
  which every lookup succeeds; suggestion 1 in its three states; and the state that holds
  one row, which the \<^verbatim>\<open>Suggestion\<close> object was built from.\<close>

definition demo_bot :: queuebot where
  "demo_bot = \<lparr>bot_user_id = 5, council_queue = 100, approval_queue = 200,
     approve_emoji_id = 1, deny_emoji_id = 2, required_votes = 5, required_difference = 3,
     verbose_vs = False, get_emoji = (\<lambda>_. True), get_user = (\<lambda>_. True), can_dm = (\<lambda>_. True),
     message_found = (\<lambda>_ _. True), utcnow = 1000, flag_default = None\<rparr>"

definition pending_row :: row where
  "pending_row = \<lparr>idx = 1, user_id = 10, emoji_id = 20, upvotes = 0, downvotes = 0,
     council_approved = None, public_message_id = None, council_message_id = Some 30,
     suggestions_message_id = Some 40, forced_reason = None, forced_by = None,
     validation_time = None, revoked = False\<rparr>"

definition public_row :: row where
  "public_row = pending_row\<lparr>council_approved := Some True, public_message_id := Some 500,
     council_message_id := None, validation_time := Some 900\<rparr>"

text \<open>A denial that stopped after its \<^verbatim>\<open>UPDATE\<close> (the gateway failed on a later call):
  the row is denied, the council message is still there.\<close>

definition half_denied_row :: row where
  "half_denied_row = pending_row\<lparr>upvotes := 4, downvotes := 1, council_approved := Some False,
     forced_by := Some 99, validation_time := Some 1000\<rparr>"

definition lookup_fails :: queuebot where
  "lookup_fails = demo_bot\<lparr>message_found := (\<lambda>_ _. False)\<rparr>"

text \<open>Reviewer 7 takes the approve reaction off the council message of suggestion 1.\<close>

definition revoke_payload :: payload where
  "revoke_payload = \<lparr>p_emoji_id = Some 1, p_channel_id = 100, p_message_id = 30, p_user_id = 7\<rparr>"

definition world_of :: "row \<Rightarrow> world" where
  "world_of r = \<lparr>self_record = Some r, suggestions = [r], council_votes = [], effects = [], fresh = 500\<rparr>"

text \<open>Suggestion 1, pending, with a given tally; and the state in which reviewer 7
  already stands for it.\<close>

definition with_tally :: "int \<Rightarrow> int \<Rightarrow> row" where
  "with_tally u d = pending_row\<lparr>upvotes := u, downvotes := d\<rparr>"

definition voted_world :: world where
  "voted_world = (world_of (with_tally 1 0))\<lparr>council_votes :=
     [\<lparr>suggestion_index = 1, voter = 7, has_approved = Some True, has_denied = None\<rparr>]\<rparr>"

text \<open>Suggestion 1 after a denial that ran to its end; the same configuration after the
  emoji of the suggestion has left the cache; three arguments of \<^verbatim>\<open>vs\<close>.\<close>

definition denied_row :: row where
  "denied_row = pending_row\<lparr>council_approved := Some False, council_message_id := None,
     forced_by := Some 99, validation_time := Some 900\<rparr>"

definition emoji_gone :: queuebot where
  "emoji_gone = demo_bot\<lparr>get_emoji := (\<lambda>_. False)\<rparr>"

definition three_entries :: "entry list" where
  "three_entries = [(Some public_row, 20, ''a.png'', ''a''), (None, 21, ''b.png'', ''b''),
     (None, 22, ''c.gif'', ''c'')]"

section \<open>Properties\<close>

subsection \<open>Sequencing and the tables\<close>

lemma bindA_returnA [simp]: "bindA (returnA x) f = f x"
  by (rule ext) (simp add: bindA_def returnA_def)

lemma bindA_raiseA [simp]: "bindA (raiseA e) f = raiseA e"
  by (rule ext) (simp add: bindA_def raiseA_def)

lemma bindA_Inr: "m s = (Inr x, s') \<Longrightarrow> bindA m f s = f x s'"
  by (simp add: bindA_def)

lemma bindA_Inl: "m s = (Inl e, s') \<Longrightarrow> bindA m f s = (Inl e, s')"
  by (simp add: bindA_def)

lemma fetchrow_update:
  assumes "\<And>r. idx (f r) = idx r"
  shows "fetchrow i (map (\<lambda>r. if idx r = i then f r else r) rows) = map_option f (fetchrow i rows)"
  using assms by (induction rows) (auto simp: fetchrow_def)

lemma fetchrow_idx: "fetchrow i rows = Some r \<Longrightarrow> idx r = i"
  by (induction rows) (auto simp: fetchrow_def split: if_splits)

lemma fetchrow_update_other:
  assumes "\<And>r. idx (f r) = idx r" "i \<noteq> j"
  shows "fetchrow i (map (\<lambda>r. if idx r = j then f r else r) rows) = fetchrow i rows"
  using assms by (induction rows) (auto simp: fetchrow_def)

lemma idx_bump [simp]: "idx (bump a vt r) = idx r"
  by (simp add: bump_def)

lemma public_message_id_bump [simp]: "public_message_id (bump a vt r) = public_message_id r"
  by (simp add: bump_def)

lemma check_council_votes_quiet:
  assumes "self_record s = Some r" and "public_message_id r = None" and "no_resolution bt r"
  shows "check_council_votes bt s = (Inr (), s)"
  using assms
  by (auto simp: check_council_votes_def no_resolution_def bindA_def the_record_def
      returnA_def Let_def)

lemma process_vote_quiet_raw:
  assumes "self_record s = Some r0" and "fetchrow (idx r0) (suggestions s) = Some r"
    and "no_resolution bt (bump (e = Some (approve_emoji_id bt)) vt r)"
  shows "process_vote bt e vt m who s =
     (Inr (), s\<lparr>self_record := Some (bump (e = Some (approve_emoji_id bt)) vt r),
        suggestions := map (\<lambda>q. if idx q = idx r0 then bump (e = Some (approve_emoji_id bt)) vt q else q) (suggestions s),
        council_votes := (if public_message_id r \<noteq> None then council_votes s
                          else upsert bt (idx r0) who (e = Some (approve_emoji_id bt)) (vt = YAY) (council_votes s))\<rparr>)"
proof -
  let ?a = "e = Some (approve_emoji_id bt)"
  let ?rows = "map (\<lambda>q. if idx q = idx r0 then bump ?a vt q else q) (suggestions s)"
  let ?s1 = "s\<lparr>suggestions := ?rows\<rparr>"
  let ?s2 = "?s1\<lparr>self_record := Some (bump ?a vt r)\<rparr>"
  have i: "idx r = idx r0" using assms(2) by (rule fetchrow_idx)
  have f: "fetchrow (idx r0) ?rows = Some (bump ?a vt r)"
    using assms(2) by (simp add: fetchrow_update)
  have d: "db_update (idx r0) (bump ?a vt) s = (Inr (), ?s1)"
    by (simp add: db_update_def)
  have u: "update_inplace ?s1 = (Inr (), ?s2)"
    using assms(1) f by (simp add: update_inplace_def bindA_def the_record_def)
  have t: "the_record ?s2 = (Inr (bump ?a vt r), ?s2)"
    by (simp add: the_record_def)
  have start: "process_vote bt e vt m who s =
      bindA (if public_message_id (bump ?a vt r) \<noteq> None then returnA ()
             else steps [upsert_council_vote bt (idx (bump ?a vt r)) who ?a (vt = YAY),
                         check_council_votes bt]) (\<lambda>_. returnA ()) ?s2"
    unfolding process_vote_def Let_def steps.simps
    using assms(1) d u t
    by (simp add: bindA_def the_record_def)
  show ?thesis
  proof (cases "public_message_id r = None")
    case False
    then show ?thesis
      unfolding start by (simp add: bindA_def returnA_def)
  next
    case True
    let ?s3 = "?s2\<lparr>council_votes := upsert bt (idx r0) who ?a (vt = YAY) (council_votes s)\<rparr>"
    have "check_council_votes bt ?s3 = (Inr (), ?s3)"
      using assms(3) True by (intro check_council_votes_quiet) simp_all
    then show ?thesis
      unfolding start using True i
      by (simp add: bindA_def returnA_def upsert_council_vote_def)
  qed
qed

lemma process_vote_quiet:
  assumes "self_record s = Some r0" and "fetchrow (idx r0) (suggestions s) = Some r"
    and "a = (e = Some (approve_emoji_id bt))"
    and "no_resolution bt (bump a vt r)"
  shows "process_vote bt e vt m who s =
     (Inr (), s\<lparr>self_record := Some (bump a vt r),
        suggestions := map (\<lambda>q. if idx q = idx r0 then bump a vt q else q) (suggestions s),
        council_votes := (if public_message_id r \<noteq> None then council_votes s
                          else upsert bt (idx r0) who a (vt = YAY) (council_votes s))\<rparr>)"
  using assms(1,2,4) unfolding assms(3) by (rule process_vote_quiet_raw)

lemma tally_after_vote:
  assumes "self_record s = Some r0" and "fetchrow (idx r0) (suggestions s) = Some r"
    and "a = (e = Some (approve_emoji_id bt))"
    and "no_resolution bt (bump a vt r)"
  shows "fst (process_vote bt e vt m who s) = Inr ()"
    and "self_record (snd (process_vote bt e vt m who s)) = Some (bump a vt r)"
    and "fetchrow (idx r0) (suggestions (snd (process_vote bt e vt m who s))) = Some (bump a vt r)"
  using assms(2) by (simp_all add: process_vote_quiet [OF assms] fetchrow_update)

lemma bump_NAY_YAY [simp]: "bump a NAY (bump a YAY r) = r"
  by (simp add: bump_def)

lemmas run_defs =
  process_vote_def check_council_votes_def reset_votes_def move_to_public_queue_def deny_def
  delete_from_council_queue_def delete_from_suggestions_channel_def notify_def
  upsert_council_vote_def upsert_def set_flag_def has_key_def bump_def
  update_inplace_def fetchrow_def db_update_def the_record_def new_id_def emit_def
  bindA_def returnA_def raiseA_def Let_def

lemmas demo_defs = demo_bot_def pending_row_def public_row_def half_denied_row_def world_of_def
  with_tally_def voted_world_def

subsection \<open>The tally counts events, not reviewers\<close>

text \<open>
  Claim C1, as the code has it. \<^verbatim>\<open>process_vote\<close> moves the counter before it looks at
  anything else and never reads \<^verbatim>\<open>council_votes\<close>, so a cast is counted each time it
  arrives. For a suggestion \<open>r0\<close> whose row in the table is \<open>r\<close>, and as long as no tally
  on the way makes the policy resolve the suggestion: one cast raises the counter of its
  direction by one and leaves the other alone; the same reviewer casting the same
  direction again raises it by one more, two in all; a revoke after one cast brings the
  tally back to what it was before the cast.
\<close>

theorem cast_counts_every_time:
  assumes "self_record s = Some r0" and "fetchrow (idx r0) (suggestions s) = Some r"
    and "a = (e = Some (approve_emoji_id bt))"
    and "no_resolution bt r"
    and "no_resolution bt (bump a YAY r)"
    and "no_resolution bt (bump a YAY (bump a YAY r))"
  shows "tally (idx r0) (snd (process_vote bt e YAY m who s)) =
           Some (if a then (upvotes r + 1, downvotes r) else (upvotes r, downvotes r + 1)) \<and>
         tally (idx r0) (snd (process_vote bt e YAY m who (snd (process_vote bt e YAY m who s)))) =
           Some (if a then (upvotes r + 2, downvotes r) else (upvotes r, downvotes r + 2)) \<and>
         tally (idx r0) (snd (process_vote bt e NAY m who (snd (process_vote bt e YAY m who s)))) =
           Some (upvotes r, downvotes r)"
proof -
  let ?s1 = "snd (process_vote bt e YAY m who s)"
  let ?r1 = "bump a YAY r"
  have i: "idx r = idx r0" using assms(2) by (rule fetchrow_idx)
  have one: "self_record ?s1 = Some ?r1" "fetchrow (idx ?r1) (suggestions ?s1) = Some ?r1"
    using tally_after_vote(2,3) [OF assms(1,2,3,5)] i by simp_all
  have two: "fetchrow (idx ?r1) (suggestions (snd (process_vote bt e YAY m who ?s1))) = Some (bump a YAY ?r1)"
    by (rule tally_after_vote(3) [OF one assms(3,6)])
  have undo: "fetchrow (idx ?r1) (suggestions (snd (process_vote bt e NAY m who ?s1))) = Some (bump a NAY ?r1)"
    by (rule tally_after_vote(3) [OF one assms(3)]) (simp add: assms(4))
  have t1: "tally (idx r0) ?s1 = Some (upvotes ?r1, downvotes ?r1)"
    using one(2) i by (simp add: tally_def)
  have t2: "tally (idx r0) (snd (process_vote bt e YAY m who ?s1)) =
      Some (upvotes (bump a YAY ?r1), downvotes (bump a YAY ?r1))"
    using two i by (simp add: tally_def)
  have t3: "tally (idx r0) (snd (process_vote bt e NAY m who ?s1)) = Some (upvotes r, downvotes r)"
    using undo i by (simp add: tally_def)
  show ?thesis
    unfolding t1 t2 t3 by (simp add: bump_def)
qed

text \<open>The theorem at a suggestion in the public queue, voted against twice, and voted
  against and revoked.\<close>

theorem cast_counts_every_time_witness:
  "self_record (world_of public_row) = Some public_row \<and>
   fetchrow (idx public_row) (suggestions (world_of public_row)) = Some public_row \<and>
   no_resolution demo_bot public_row \<and>
   tally 1 (snd (process_vote demo_bot (Some 2) YAY 500 7 (world_of public_row))) = Some (0, 1) \<and>
   tally 1 (snd (process_vote demo_bot (Some 2) YAY 500 7
             (snd (process_vote demo_bot (Some 2) YAY 500 7 (world_of public_row))))) = Some (0, 2) \<and>
   tally 1 (snd (process_vote demo_bot (Some 2) NAY 500 7
             (snd (process_vote demo_bot (Some 2) YAY 500 7 (world_of public_row))))) = Some (0, 0)"
proof -
  have h1: "self_record (world_of public_row) = Some public_row"
    by (simp add: world_of_def)
  have h2: "fetchrow (idx public_row) (suggestions (world_of public_row)) = Some public_row"
    by (simp add: world_of_def fetchrow_def)
  have h3: "False = (Some 2 = Some (approve_emoji_id demo_bot))"
    by (simp add: demo_bot_def)
  have p: "public_message_id public_row \<noteq> None"
    by (simp add: public_row_def)
  have h4: "no_resolution demo_bot public_row"
    "no_resolution demo_bot (bump False YAY public_row)"
    "no_resolution demo_bot (bump False YAY (bump False YAY public_row))"
    using p by (simp_all add: no_resolution_def)
  have i: "idx public_row = 1" "upvotes public_row = 0" "downvotes public_row = 0"
    by (simp_all add: public_row_def pending_row_def)
  show ?thesis
    using cast_counts_every_time [OF h1 h2 h3 h4, of 500 7] h1 h2 h4(1) i by simp
qed

text \<open>Against claim C1 as stated (the second cast of the same reviewer must not count):
  suggestion 1 is pending with tally (0, 0); reviewer 7 adds the approve reaction twice,
  with no revoke in between; the tally is (2, 0).\<close>

theorem duplicate_cast_counts_twice:
  "tally 1 (world_of pending_row) = Some (0, 0) \<and>
   tally 1 (snd (process_vote demo_bot (Some 1) YAY 30 7 (world_of pending_row))) = Some (1, 0) \<and>
   tally 1 (snd (process_vote demo_bot (Some 1) YAY 30 7
             (snd (process_vote demo_bot (Some 1) YAY 30 7 (world_of pending_row))))) = Some (2, 0)"
  by (simp add: tally_def run_defs demo_defs)

subsection \<open>Revokes\<close>

text \<open>
  What \<^verbatim>\<open>process_vote\<close> does with a revoke that is handed to it as \<^verbatim>\<open>VoteType.NAY\<close>: the
  statement is \<^verbatim>\<open>SET col = col - 1\<close> whatever the ledger holds and whatever the counter
  is, so on counters without a constraint (the schema is not part of the sources) the
  counter of the direction goes down by exactly one, below zero when it was zero. (As
  for casts: the row that the vote leaves behind does not make the policy resolve the
  suggestion.)
\<close>

lemma revoke_always_decrements:
  assumes "self_record s = Some r0" and "fetchrow (idx r0) (suggestions s) = Some r"
    and "a = (e = Some (approve_emoji_id bt))"
    and "no_resolution bt (bump a NAY r)"
  shows "fst (process_vote bt e NAY m who s) = Inr () \<and>
         tally (idx r0) (snd (process_vote bt e NAY m who s)) =
           Some (if a then (upvotes r - 1, downvotes r) else (upvotes r, downvotes r - 1))"
  using tally_after_vote(1,3) [OF assms, of m who]
  by (simp add: tally_def bump_def)

text \<open>At a suggestion in the public queue with tally (0, 0): a revoke against it, handed
  to \<^verbatim>\<open>process_vote\<close>, leaves (0, -1).\<close>

lemma revoke_always_decrements_at_public_row:
  "self_record (world_of public_row) = Some public_row \<and>
   fetchrow (idx public_row) (suggestions (world_of public_row)) = Some public_row \<and>
   no_resolution demo_bot (bump False NAY public_row) \<and>
   fst (process_vote demo_bot (Some 2) NAY 500 8 (world_of public_row)) = Inr () \<and>
   tally 1 (snd (process_vote demo_bot (Some 2) NAY 500 8 (world_of public_row))) = Some (0, - 1)"
proof -
  have h1: "self_record (world_of public_row) = Some public_row"
    by (simp add: world_of_def)
  have h2: "fetchrow (idx public_row) (suggestions (world_of public_row)) = Some public_row"
    by (simp add: world_of_def fetchrow_def)
  have h3: "False = (Some 2 = Some (approve_emoji_id demo_bot))"
    by (simp add: demo_bot_def)
  have h4: "no_resolution demo_bot (bump False NAY public_row)"
    by (simp add: no_resolution_def public_row_def)
  have i: "idx public_row = 1" "upvotes public_row = 0" "downvotes public_row = 0"
    by (simp_all add: public_row_def pending_row_def)
  show ?thesis
    using revoke_always_decrements [OF h1 h2 h3 h4, of 500 8] h1 h2 h4 i by simp
qed

text \<open>At the pending suggestion 1 with tally (0, 0) and an empty ledger: a revoke of the
  approve reaction, handed to \<^verbatim>\<open>process_vote\<close>, returns normally and leaves the tally
  (-1, 0).\<close>

lemma revoke_goes_below_zero:
  "council_votes (world_of pending_row) = [] \<and>
   tally 1 (world_of pending_row) = Some (0, 0) \<and>
   fst (process_vote demo_bot (Some 1) NAY 30 7 (world_of pending_row)) = Inr () \<and>
   tally 1 (snd (process_vote demo_bot (Some 1) NAY 30 7 (world_of pending_row))) = Some (- 1, 0)"
  by (simp add: tally_def run_defs demo_defs)

text \<open>The same revoke as the event the gateway delivers: with the member \<^verbatim>\<open>NAY\<close> the
  listener's path reaches \<^verbatim>\<open>process_vote\<close> and ends in the same tally.\<close>

lemma revoke_event_with_declared_member:
  "fst (process_raw_reaction demo_bot revoke_payload NAY (world_of pending_row)) = Inr () \<and>
   tally 1 (snd (process_raw_reaction demo_bot revoke_payload NAY (world_of pending_row)))
     = Some (- 1, 0)"
  by (simp add: tally_def process_raw_reaction_def is_vote_def get_from_message_def
      revoke_payload_def run_defs demo_defs)

text \<open>The sibling listener: \<^verbatim>\<open>VoteType.CAST\<close> is no member either.\<close>

lemma cast_event_raises: "on_raw_reaction_add bt p s = (Inl AttributeError, s)"
  by (simp add: on_raw_reaction_add_def VoteType_member_def raiseA_def)

text \<open>
  Claim C2 at its failing input. The claim has a revoke with no cast before it be a
  no-op and not an error. \<^verbatim>\<open>on_raw_reaction_remove\<close> reads \<^verbatim>\<open>Suggestion.VoteType.REVOKE\<close>,
  which the enumeration does not declare (its members are \<^verbatim>\<open>YAY\<close> and \<^verbatim>\<open>NAY\<close>, and
  \<^verbatim>\<open>process_vote\<close> compares with \<^verbatim>\<open>YAY\<close>): every reaction that is taken off raises
  \<^verbatim>\<open>AttributeError\<close> in the listener, before \<^verbatim>\<open>process_raw_reaction\<close> and \<^verbatim>\<open>process_vote\<close>
  are reached, and leaves the state as it was. So it is when reviewer 7 takes the approve
  reaction off the council message of the pending suggestion 1, tally (0, 0), empty
  ledger.
\<close>

theorem revoke_event_raises:
  "on_raw_reaction_remove bt p s = (Inl AttributeError, s) \<and>
   council_votes (world_of pending_row) = [] \<and>
   tally 1 (world_of pending_row) = Some (0, 0) \<and>
   on_raw_reaction_remove demo_bot revoke_payload (world_of pending_row)
     = (Inl AttributeError, world_of pending_row)"
  by (simp add: on_raw_reaction_remove_def VoteType_member_def raiseA_def tally_def
      fetchrow_def world_of_def pending_row_def)

lemma keepsD: "keeps g m \<Longrightarrow> g (snd (m s)) = g s"
  by (simp add: keeps_def)

lemma keeps_returnA: "keeps g (returnA x)"
  by (simp add: keeps_def returnA_def)

lemma keeps_raiseA: "keeps g (raiseA e)"
  by (simp add: keeps_def raiseA_def)

lemma keeps_bindA: "keeps g m \<Longrightarrow> (\<And>x. keeps g (f x)) \<Longrightarrow> keeps g (bindA m f)"
  by (auto simp: keeps_def bindA_def split: prod.splits sum.splits) (metis snd_conv)+

lemma keeps_steps_Nil: "keeps g (steps [])"
  by (simp add: keeps_returnA)

lemma keeps_steps_Cons: "keeps g m \<Longrightarrow> keeps g (steps ms) \<Longrightarrow> keeps g (steps (m # ms))"
  by (simp add: keeps_bindA)

lemma keeps_if: "keeps g m \<Longrightarrow> keeps g n \<Longrightarrow> keeps g (if c then m else n)"
  by simp

lemma keeps_the_record: "keeps g the_record"
  by (simp add: keeps_def the_record_def split: option.splits)

lemmas keeps_intros =
  keeps_returnA keeps_raiseA keeps_bindA keeps_steps_Nil keeps_steps_Cons keeps_if keeps_the_record

lemma keeps_votes_emit: "keeps council_votes (emit e)"
  by (simp add: keeps_def emit_def)

lemma keeps_votes_new_id: "keeps council_votes new_id"
  by (simp add: keeps_def new_id_def)

lemma keeps_votes_db_update: "keeps council_votes (db_update i f)"
  by (simp add: keeps_def db_update_def)

lemma keeps_votes_update_inplace: "keeps council_votes update_inplace"
  unfolding update_inplace_def
  by (intro keeps_intros) (simp add: keeps_def)

lemmas keeps_votes_basic =
  keeps_votes_emit keeps_votes_new_id keeps_votes_db_update keeps_votes_update_inplace

lemma keeps_votes_delete_from_council_queue: "keeps council_votes (delete_from_council_queue bt)"
  unfolding delete_from_council_queue_def
  by (intro keeps_intros keeps_votes_basic)

lemma keeps_votes_delete_from_suggestions_channel:
  "keeps council_votes (delete_from_suggestions_channel bt)"
  unfolding delete_from_suggestions_channel_def
  by (auto intro!: keeps_intros keeps_votes_basic split: option.splits)

lemma keeps_votes_notify: "keeps council_votes (notify bt u t w)"
  unfolding notify_def by (intro keeps_intros keeps_votes_basic)

lemma keeps_votes_move_to_public_queue: "keeps council_votes (move_to_public_queue bt who reason)"
  unfolding move_to_public_queue_def Let_def
  by (intro keeps_intros keeps_votes_basic keeps_votes_delete_from_council_queue
      keeps_votes_delete_from_suggestions_channel keeps_votes_notify)

lemma keeps_votes_deny: "keeps council_votes (deny bt who reason revoke)"
  unfolding deny_def Let_def
  by (intro keeps_intros keeps_votes_basic keeps_votes_delete_from_council_queue
      keeps_votes_delete_from_suggestions_channel keeps_votes_notify)

lemma keeps_votes_reset_votes: "keeps council_votes reset_votes"
  unfolding reset_votes_def by (intro keeps_intros keeps_votes_basic)

lemma keeps_votes_check_council_votes: "keeps council_votes (check_council_votes bt)"
  unfolding check_council_votes_def Let_def
  by (intro keeps_intros keeps_votes_reset_votes keeps_votes_move_to_public_queue keeps_votes_deny)

subsection \<open>The resolution policy\<close>

text \<open>
  Claim C3. \<^verbatim>\<open>check_council_votes\<close> is the policy of the specification, read as the
  ordered list of rules it is (the first rule that applies decides): it does what the
  policy's outcome stands for, on every state and for every pair of thresholds. With
  \<^verbatim>\<open>required_votes = 5\<close> and \<^verbatim>\<open>required_difference = 3\<close>, run on the pending suggestion 1:
  the tally (4, 0) changes nothing; (4, 1) moves it to the public queue; (1, 4) denies
  it; (3, 3) changes nothing.
\<close>

theorem check_council_votes_policy:
  "check_council_votes bt s =
     (case self_record s of
        None \<Rightarrow> (Inl TypeError, s)
      | Some r \<Rightarrow> enact bt (resolution_policy (upvotes r) (downvotes r)
                    (required_votes bt) (required_difference bt)) s) \<and>
   check_council_votes demo_bot (world_of (with_tally 4 0)) = (Inr (), world_of (with_tally 4 0)) \<and>
   map_option council_approved (fetchrow 1 (suggestions
       (snd (check_council_votes demo_bot (world_of (with_tally 4 1)))))) = Some (Some True) \<and>
   map_option council_approved (fetchrow 1 (suggestions
       (snd (check_council_votes demo_bot (world_of (with_tally 1 4)))))) = Some (Some False) \<and>
   check_council_votes demo_bot (world_of (with_tally 3 3)) = (Inr (), world_of (with_tally 3 3))"
proof -
  have general: "check_council_votes bt s =
     (case self_record s of
        None \<Rightarrow> (Inl TypeError, s)
      | Some r \<Rightarrow> enact bt (resolution_policy (upvotes r) (downvotes r)
                    (required_votes bt) (required_difference bt)) s)"
    by (cases "self_record s")
      (simp_all add: check_council_votes_def the_record_def bindA_def resolution_policy_def Let_def)
  have c1: "check_council_votes demo_bot (world_of (with_tally 4 0)) = (Inr (), world_of (with_tally 4 0))"
    by (simp add: run_defs demo_defs)
  have c2: "map_option council_approved (fetchrow 1 (suggestions
       (snd (check_council_votes demo_bot (world_of (with_tally 4 1)))))) = Some (Some True)"
    by (simp add: run_defs demo_defs)
  have c3: "map_option council_approved (fetchrow 1 (suggestions
       (snd (check_council_votes demo_bot (world_of (with_tally 1 4)))))) = Some (Some False)"
    by (simp add: run_defs demo_defs)
  have c4: "check_council_votes demo_bot (world_of (with_tally 3 3)) = (Inr (), world_of (with_tally 3 3))"
    by (simp add: run_defs demo_defs)
  show ?thesis using general c1 c2 c3 c4 by blast
qed

text \<open>With a positive \<^verbatim>\<open>required_difference\<close> the promote rule and the deny rule exclude
  each other, so the order in which the policy lists them does not matter.\<close>

lemma deny_rule_alone:
  "0 < rd \<Longrightarrow> rv \<le> up + down \<Longrightarrow> rd \<le> down - up \<Longrightarrow> resolution_policy up down rv rd = Deny"
  by (simp add: resolution_policy_def)

subsection \<open>Votes on a suggestion in the public queue\<close>

text \<open>
  Claim C6, as the code has it. For a suggestion that has a public message (one that was
  promoted), a further vote moves the counter of its direction by one, up for a cast and
  down for a revoke, and does nothing else: it returns normally, it writes no row of
  \<^verbatim>\<open>council_votes\<close>, it does not run the policy (no gateway call is made), and the state
  \<^verbatim>\<open>council_approved\<close> of the suggestion stays what it was.
\<close>

theorem public_vote_only_tallied:
  assumes "self_record s = Some r0" and "fetchrow (idx r0) (suggestions s) = Some r"
    and "public_message_id r \<noteq> None"
    and "a = (e = Some (approve_emoji_id bt))"
  shows "fst (process_vote bt e vt m who s) = Inr () \<and>
         fetchrow (idx r0) (suggestions (snd (process_vote bt e vt m who s))) = Some (bump a vt r) \<and>
         upvotes (bump a vt r) = (if a then operator vt (upvotes r) 1 else upvotes r) \<and>
         downvotes (bump a vt r) = (if a then downvotes r else operator vt (downvotes r) 1) \<and>
         council_approved (bump a vt r) = council_approved r \<and>
         council_votes (snd (process_vote bt e vt m who s)) = council_votes s \<and>
         effects (snd (process_vote bt e vt m who s)) = effects s"
proof -
  have q: "no_resolution bt (bump a vt r)"
    using assms(3) by (simp add: no_resolution_def)
  have run: "process_vote bt e vt m who s =
     (Inr (), s\<lparr>self_record := Some (bump a vt r),
        suggestions := map (\<lambda>q. if idx q = idx r0 then bump a vt q else q) (suggestions s),
        council_votes := council_votes s\<rparr>)"
    using process_vote_quiet [OF assms(1,2,4) q, of m who] assms(3) by simp
  show ?thesis
    unfolding run using assms(2) by (simp add: fetchrow_update) (simp add: bump_def)
qed

text \<open>How the denied row of the example below comes about: a reviewer denies the
  pending suggestion 1, tally (4, 1), and the gateway does not find the council
  message; the row is denied by then, and the message id is still in it.\<close>

lemma half_denied_row_arises:
  "fst (deny_command lookup_fails 99 (with_tally 4 1) None True (world_of (with_tally 4 1)))
     = Inl HTTPException \<and>
   fetchrow 1 (suggestions
     (snd (deny_command lookup_fails 99 (with_tally 4 1) None True (world_of (with_tally 4 1)))))
     = Some half_denied_row"
  by (simp add: deny_command_def or_None_def lookup_fails_def run_defs demo_defs)

text \<open>The theorem at suggestion 1 in the public queue, approved once more by reviewer 7.\<close>

theorem public_vote_only_tallied_witness:
  "public_message_id public_row \<noteq> None \<and>
   fst (process_vote demo_bot (Some 1) YAY 500 7 (world_of public_row)) = Inr () \<and>
   tally 1 (snd (process_vote demo_bot (Some 1) YAY 500 7 (world_of public_row))) = Some (1, 0) \<and>
   council_votes (snd (process_vote demo_bot (Some 1) YAY 500 7 (world_of public_row))) = [] \<and>
   effects (snd (process_vote demo_bot (Some 1) YAY 500 7 (world_of public_row))) = []"
proof -
  have h1: "self_record (world_of public_row) = Some public_row"
    by (simp add: world_of_def)
  have h2: "fetchrow (idx public_row) (suggestions (world_of public_row)) = Some public_row"
    by (simp add: world_of_def fetchrow_def)
  have h3: "public_message_id public_row \<noteq> None"
    by (simp add: public_row_def)
  have h4: "True = (Some 1 = Some (approve_emoji_id demo_bot))"
    by (simp add: demo_bot_def)
  have i: "idx public_row = 1" "upvotes public_row = 0" "downvotes public_row = 0"
    by (simp_all add: public_row_def pending_row_def)
  have w: "council_votes (world_of public_row) = []" "effects (world_of public_row) = []"
    by (simp_all add: world_of_def)
  show ?thesis
    using public_vote_only_tallied [OF h1 h2 h3 h4, of YAY 500 7] h3 i w
    by (simp add: tally_def bump_def)
qed

text \<open>Against claim C6 as stated (a late vote is written to the ledger, and the policy
  does not run for a submission that has left Pending): after a vote of reviewer 7 on the
  promoted suggestion 1 the ledger has no row of reviewer 7; and suggestion 1, denied but
  with its council message still there, tally (4, 1), receives one approve cast, the
  policy runs and the suggestion ends in the public queue.\<close>

theorem late_vote_skips_ledger_or_resolves:
  "\<not> list_ex (has_key 1 7)
       (council_votes (snd (process_vote demo_bot (Some 1) YAY 500 7 (world_of public_row)))) \<and>
   map_option council_approved (fetchrow 1 (suggestions (world_of half_denied_row))) = Some (Some False) \<and>
   map_option council_approved (fetchrow 1 (suggestions
       (snd (process_vote demo_bot (Some 1) YAY 30 7 (world_of half_denied_row))))) = Some (Some True)"
  by (simp add: run_defs demo_defs)

subsection \<open>The ledger: one row per reviewer, one flag per direction\<close>

lemma vote_key_set_flag [simp]: "vote_key (set_flag a f v) = vote_key v"
  by (simp add: vote_key_def set_flag_def)

lemma has_key_vote_key: "has_key i who v \<longleftrightarrow> vote_key v = (i, who)"
  by (auto simp: has_key_def vote_key_def)

lemma find_append_cases:
  "find P (xs @ ys) = (case find P xs of None \<Rightarrow> find P ys | Some x \<Rightarrow> Some x)"
  by (induction xs) simp_all

lemma distinct_upsert:
  assumes "distinct (map vote_key votes)"
  shows "distinct (map vote_key (upsert bt i who a f votes))"
proof (cases "list_ex (has_key i who) votes")
  case True
  have "(\<lambda>v. vote_key (if has_key i who v then set_flag a f v else v)) = vote_key"
    by (rule ext) simp
  with True assms show ?thesis by (simp add: upsert_def comp_def)
next
  case False
  then have "(i, who) \<notin> set (map vote_key votes)"
    by (auto simp: list_ex_iff has_key_vote_key)
  with False assms show ?thesis by (simp add: upsert_def vote_key_def set_flag_def)
qed

lemma find_upsert:
  "find (has_key i who) (upsert bt i who a f votes) = Some (set_flag a f (standing bt i who votes))"
proof (cases "list_ex (has_key i who) votes")
  case True
  have k: "\<And>v. has_key i who (set_flag a f v) = has_key i who v"
    by (simp add: has_key_def set_flag_def)
  have "find (has_key i who) (map (\<lambda>v. if has_key i who v then set_flag a f v else v) votes) =
        map_option (set_flag a f) (find (has_key i who) votes)"
    by (induction votes) (simp_all add: k)
  moreover obtain v where "find (has_key i who) votes = Some v"
    using True by (cases "find (has_key i who) votes") (auto simp: find_None_iff list_ex_iff)
  ultimately show ?thesis using True by (simp add: upsert_def standing_def)
next
  case False
  then have n: "find (has_key i who) votes = None"
    by (simp add: find_None_iff list_ex_iff)
  have "has_key i who (set_flag a f \<lparr>suggestion_index = i, voter = who,
          has_approved = flag_default bt, has_denied = flag_default bt\<rparr>)"
    by (simp add: has_key_def set_flag_def)
  with False n show ?thesis by (simp add: upsert_def standing_def find_append_cases)
qed

lemma ledger_step_keeps: "keeps council_votes m \<Longrightarrow> ledger_step bt who m"
  by (simp add: keeps_def ledger_step_def)

lemma ledger_step_bindA_first:
  assumes "keeps council_votes m" and "\<And>x. ledger_step bt who (f x)"
  shows "ledger_step bt who (bindA m f)"
  unfolding ledger_step_def
proof
  fix s
  show "council_votes (snd (bindA m f s)) = council_votes s \<or>
        (\<exists>i a fl. council_votes (snd (bindA m f s)) = upsert bt i who a fl (council_votes s))"
  proof (cases "m s")
    case (Pair res s')
    have k: "council_votes s' = council_votes s"
      using keepsD [OF assms(1), of s] Pair by simp
    show ?thesis
    proof (cases res)
      case (Inl e)
      with Pair k show ?thesis by (simp add: bindA_def)
    next
      case (Inr x)
      have "council_votes (snd (f x s')) = council_votes s' \<or>
          (\<exists>i a fl. council_votes (snd (f x s')) = upsert bt i who a fl (council_votes s'))"
        using assms(2) [of x] by (simp add: ledger_step_def)
      with Inr Pair k show ?thesis
        by (simp add: bindA_def)
    qed
  qed
qed

lemma ledger_step_bindA_rest:
  assumes "ledger_step bt who m" and "\<And>x. keeps council_votes (f x)"
  shows "ledger_step bt who (bindA m f)"
  unfolding ledger_step_def
proof
  fix s
  show "council_votes (snd (bindA m f s)) = council_votes s \<or>
        (\<exists>i a fl. council_votes (snd (bindA m f s)) = upsert bt i who a fl (council_votes s))"
  proof (cases "m s")
    case (Pair res s')
    have k: "council_votes s' = council_votes s \<or>
        (\<exists>i a fl. council_votes s' = upsert bt i who a fl (council_votes s))"
      using assms(1) Pair by (auto simp: ledger_step_def dest: spec [of _ s])
    show ?thesis
    proof (cases res)
      case (Inl e)
      with Pair k show ?thesis by (simp add: bindA_def)
    next
      case (Inr x)
      with Pair k keepsD [OF assms(2) [of x], of s'] show ?thesis
        by (simp add: bindA_def)
    qed
  qed
qed

lemma ledger_step_upsert: "ledger_step bt who (upsert_council_vote bt i who a f)"
  by (auto simp: ledger_step_def upsert_council_vote_def)

lemma ledger_step_if:
  "ledger_step bt who m \<Longrightarrow> ledger_step bt who n \<Longrightarrow> ledger_step bt who (if c then m else n)"
  by simp

lemma ledger_step_process_vote: "ledger_step bt who (process_vote bt e vt m who)"
  unfolding process_vote_def Let_def steps.simps
  apply (rule ledger_step_bindA_first, rule keeps_the_record)
  apply (rule ledger_step_bindA_first, rule keeps_votes_db_update)
  apply (rule ledger_step_bindA_first, rule keeps_votes_update_inplace)
  apply (rule ledger_step_bindA_rest)
   apply (rule ledger_step_bindA_first, rule keeps_the_record)
   apply (rule ledger_step_if)
    apply (rule ledger_step_keeps, rule keeps_returnA)
   apply (rule ledger_step_bindA_rest, rule ledger_step_upsert)
   apply (intro keeps_intros keeps_votes_check_council_votes)
  apply (rule keeps_returnA)
  done

lemma process_vote_pending_votes:
  assumes "self_record s = Some r0" and "fetchrow (idx r0) (suggestions s) = Some r"
    and "public_message_id r = None"
  shows "council_votes (snd (process_vote bt e vt m who s)) =
     upsert bt (idx r0) who (e = Some (approve_emoji_id bt)) (vt = YAY) (council_votes s)"
proof -
  let ?a = "e = Some (approve_emoji_id bt)"
  let ?rows = "map (\<lambda>q. if idx q = idx r0 then bump ?a vt q else q) (suggestions s)"
  let ?s1 = "s\<lparr>suggestions := ?rows\<rparr>"
  let ?s2 = "?s1\<lparr>self_record := Some (bump ?a vt r)\<rparr>"
  let ?s3 = "?s2\<lparr>council_votes := upsert bt (idx r0) who ?a (vt = YAY) (council_votes s)\<rparr>"
  have i: "idx r = idx r0" using assms(2) by (rule fetchrow_idx)
  have f: "fetchrow (idx r0) ?rows = Some (bump ?a vt r)"
    using assms(2) by (simp add: fetchrow_update)
  have d: "db_update (idx r0) (bump ?a vt) s = (Inr (), ?s1)"
    by (simp add: db_update_def)
  have u: "update_inplace ?s1 = (Inr (), ?s2)"
    using assms(1) f by (simp add: update_inplace_def bindA_def the_record_def)
  have t: "the_record ?s2 = (Inr (bump ?a vt r), ?s2)"
    by (simp add: the_record_def)
  have start: "process_vote bt e vt m who s =
      bindA (bindA (check_council_votes bt) (\<lambda>_. returnA ())) (\<lambda>_. returnA ()) ?s3"
    unfolding process_vote_def Let_def steps.simps
    using assms(1,3) d u t i
    by (simp add: bindA_def the_record_def upsert_council_vote_def)
  have "keeps council_votes
      (bindA (bindA (check_council_votes bt) (\<lambda>_. returnA ())) (\<lambda>_. returnA ()))"
    by (intro keeps_intros keeps_votes_check_council_votes)
  from keepsD [OF this, of ?s3] show ?thesis
    unfolding start by simp
qed

lemma ledger_keys_stay_distinct:
  assumes "distinct (map vote_key (council_votes s))"
  shows "distinct (map vote_key (council_votes (snd (process_vote bt e vt m who s))))"
  using ledger_step_process_vote [of bt who e vt m] assms
  by (auto simp: ledger_step_def distinct_upsert dest!: spec [of _ s])

text \<open>
  Claim C7, as the code has it. For a suggestion without a public message, a vote of
  reviewer \<open>who\<close> leaves the ledger with one row per key, as it was before, and in the
  reviewer's row it overwrites the flag of its own direction only (\<open>True\<close> for a cast,
  \<open>False\<close> for a revoke): the flag of the other direction keeps the value it had (the
  column default if the row is new). So a cast in the opposite direction does not replace
  the earlier one; the reviewer then stands in both, which \<^verbatim>\<open>vote_info\<close> shows as "Both".
  This holds whatever the policy does afterwards, and also when it raises.
\<close>

theorem ledger_row_per_reviewer:
  assumes "distinct (map vote_key (council_votes s))"
    and "self_record s = Some r0" and "fetchrow (idx r0) (suggestions s) = Some r"
    and "public_message_id r = None"
    and "a = (e = Some (approve_emoji_id bt))"
    and "v = standing bt (idx r0) who (council_votes s)"
  shows "distinct (map vote_key (council_votes (snd (process_vote bt e vt m who s)))) \<and>
         (\<exists>v'. find (has_key (idx r0) who) (council_votes (snd (process_vote bt e vt m who s))) = Some v' \<and>
           has_approved v' = (if a then Some (vt = YAY) else has_approved v) \<and>
           has_denied v' = (if a then has_denied v else Some (vt = YAY)))"
proof -
  have after: "council_votes (snd (process_vote bt e vt m who s)) =
      upsert bt (idx r0) who a (vt = YAY) (council_votes s)"
    unfolding assms(5) using assms(2,3,4) by (rule process_vote_pending_votes)
  show ?thesis
    unfolding after
    using assms(1) by (simp add: distinct_upsert find_upsert assms(6)) (simp add: set_flag_def)
qed

text \<open>The theorem at reviewer 7, who approved suggestion 1 and now casts against it.\<close>

theorem ledger_row_per_reviewer_witness:
  "distinct (map vote_key (council_votes voted_world)) \<and>
   self_record voted_world = Some (with_tally 1 0) \<and>
   public_message_id (with_tally 1 0) = None \<and>
   has_approved (standing demo_bot 1 7 (council_votes voted_world)) = Some True \<and>
   has_denied (standing demo_bot 1 7 (council_votes voted_world)) = None \<and>
   distinct (map vote_key (council_votes (snd (process_vote demo_bot (Some 2) YAY 30 7 voted_world)))) \<and>
   (\<exists>v'. find (has_key 1 7) (council_votes (snd (process_vote demo_bot (Some 2) YAY 30 7 voted_world))) = Some v' \<and>
      has_approved v' = Some True \<and> has_denied v' = Some True)"
proof -
  have h1: "distinct (map vote_key (council_votes voted_world))"
    by (simp add: voted_world_def)
  have h2: "self_record voted_world = Some (with_tally 1 0)"
    by (simp add: voted_world_def world_of_def)
  have h3: "fetchrow (idx (with_tally 1 0)) (suggestions voted_world) = Some (with_tally 1 0)"
    by (simp add: voted_world_def world_of_def fetchrow_def)
  have h4: "public_message_id (with_tally 1 0) = None"
    by (simp add: with_tally_def pending_row_def)
  have h5: "False = (Some 2 = Some (approve_emoji_id demo_bot))"
    by (simp add: demo_bot_def)
  have i: "idx (with_tally 1 0) = 1"
    by (simp add: with_tally_def pending_row_def)
  have v: "has_approved (standing demo_bot 1 7 (council_votes voted_world)) = Some True"
    "has_denied (standing demo_bot 1 7 (council_votes voted_world)) = None"
    by (simp_all add: standing_def voted_world_def has_key_def)
  show ?thesis
    using ledger_row_per_reviewer [OF h1 h2 h3 h4 h5 refl, of YAY 30 7] h1 h2 h4 i v
    by simp
qed

text \<open>Against claim C7 as stated (a cast in the opposite direction replaces the standing
  intent): reviewer 7 casts for the pending suggestion 1 and then against it; the one row
  of the ledger has both flags set, and \<^verbatim>\<open>vote_info\<close> labels it "Both".\<close>

theorem opposite_cast_stands_in_both:
  "council_votes (snd (process_vote demo_bot (Some 2) YAY 30 7
      (snd (process_vote demo_bot (Some 1) YAY 30 7 (world_of pending_row))))) =
     [\<lparr>suggestion_index = 1, voter = 7, has_approved = Some True, has_denied = Some True\<rparr>] \<and>
   vote_label \<lparr>suggestion_index = 1, voter = 7, has_approved = Some True, has_denied = Some True\<rparr> = ''Both''"
  by (simp add: run_defs demo_defs vote_label_def)

subsection \<open>The transitions\<close>

text \<open>What the two methods refuse: \<^verbatim>\<open>move_to_public_queue\<close> a suggestion in the public
  queue, \<^verbatim>\<open>deny\<close> a suggestion in the public queue or denied; the state is as it was.\<close>

lemma promote_refused_in_public_queue:
  assumes "self_record s = Some r" and "council_approved r = Some True"
  shows "move_to_public_queue bt who reason s =
     (Inl (OperationError ''Cannot move this suggestion to the public approval queue -- it is already in the public approval queue. ''), s)"
  using assms by (simp add: move_to_public_queue_def bindA_def the_record_def raiseA_def)

lemma deny_refused_when_resolved:
  assumes "self_record s = Some r" and "council_approved r = Some b"
  shows "deny bt who reason revoke s =
     (Inl (OperationError (if b then ''Can't deny this suggestion -- it's already in the public queue.''
                           else ''Can't deny this suggestion -- it has already been denied.'')), s)"
  using assms by (simp add: deny_def bindA_def the_record_def raiseA_def)

text \<open>
  Claim C5 at its failing inputs: \<^verbatim>\<open>move_to_public_queue\<close> does not test \<^verbatim>\<open>is_denied\<close>, which
  \<^verbatim>\<open>deny\<close> does. Suggestion 1 is denied. When its emoji has left the cache (a denial
  deletes it), the method returns normally and the approve command reports success. When
  the emoji and the council message are still there, the method returns normally and the
  suggestion is in the public queue afterwards. \<^verbatim>\<open>deny\<close> on the same row raises
  \<^verbatim>\<open>OperationError\<close>.
\<close>

theorem approve_of_denied_is_not_refused:
  "council_approved denied_row = Some False \<and>
   fst (move_to_public_queue emoji_gone (Some 99) None (world_of denied_row)) = Inr () \<and>
   fst (approve_command emoji_gone 99 denied_row None True (world_of denied_row)) = Inr () \<and>
   last (effects (snd (approve_command emoji_gone 99 denied_row None True (world_of denied_row))))
     = CtxSend ''Successfully approved'' \<and>
   council_approved half_denied_row = Some False \<and>
   fst (move_to_public_queue demo_bot (Some 99) None (world_of half_denied_row)) = Inr () \<and>
   map_option council_approved (fetchrow 1 (suggestions
     (snd (move_to_public_queue demo_bot (Some 99) None (world_of half_denied_row)))))
     = Some (Some True) \<and>
   fst (deny emoji_gone (Some 99) None False (world_of denied_row))
     = Inl (OperationError ''Can't deny this suggestion -- it has already been denied.'')"
  by (simp add: approve_command_def or_None_def run_defs demo_defs denied_row_def emoji_gone_def)

text \<open>
  Claim C4 at its failing input: the approve command calls \<^verbatim>\<open>move_to_public_queue\<close> without
  \<^verbatim>\<open>reset_votes\<close>, which the policy calls first. Suggestion 1 is pending with tally (2, 1);
  a reviewer forces its approval; it is in the public queue afterwards and its tally is
  still (2, 1). Promoted by the policy from the tally (4, 1), it has the tally (0, 0).
\<close>

theorem forced_approve_keeps_tally:
  "fst (approve_command demo_bot 99 (with_tally 2 1) None True (world_of (with_tally 2 1))) = Inr () \<and>
   map_option council_approved (fetchrow 1 (suggestions
     (snd (approve_command demo_bot 99 (with_tally 2 1) None True (world_of (with_tally 2 1))))))
     = Some (Some True) \<and>
   tally 1 (snd (approve_command demo_bot 99 (with_tally 2 1) None True (world_of (with_tally 2 1))))
     = Some (2, 1) \<and>
   tally 1 (snd (check_council_votes demo_bot (world_of (with_tally 4 1)))) = Some (0, 0)"
  by (simp add: tally_def approve_command_def or_None_def run_defs demo_defs)

subsection \<open>An emoji that the cache does not resolve\<close>

text \<open>
  Claim C10. For a pending suggestion whose emoji the cache does not resolve,
  \<^verbatim>\<open>move_to_public_queue\<close> logs that (after logging a submitter it does not find) and
  returns: no exception, no write to the tables. The approve command therefore goes on
  to log the forced approval and to report success, while the table still holds the
  suggestion as it was, pending. \<^verbatim>\<open>deny\<close> in the same situation logs and raises
  \<^verbatim>\<open>RuntimeError\<close>.
\<close>

theorem unresolved_emoji_promote_is_silent:
  assumes "self_record s = Some r" and "council_approved r = None"
    and "\<not> get_emoji bt (emoji_id r)"
    and "logs = (if get_user bt (user_id r) then [] else [BotLog ''SUBMITTER_NOT_FOUND move to PQ''])
                 @ [BotLog ''UPLOADED_EMOJI_NOT_FOUND move to PQ'']"
  shows "move_to_public_queue bt who reason s = (Inr (), s\<lparr>effects := effects s @ logs\<rparr>) \<and>
         approve_command bt author r reason True s =
           (Inr (), s\<lparr>self_record := Some r,
              effects := effects s @ [Confirm ''Are you sure that you want to **approve** this suggestion?'']
                @ logs @ [BotLog ''force approved'', CtxSend ''Successfully approved'']\<rparr>) \<and>
         suggestions (snd (approve_command bt author r reason True s)) = suggestions s \<and>
         deny bt who reason revoke s =
           (Inl (RuntimeError ''Error denying -- the uploaded emoji wasn't found.''),
            s\<lparr>effects := effects s @ [BotLog ''UPLOADED_EMOJI_NOT_FOUND deny'']\<rparr>)"
proof -
  have move: "move_to_public_queue bt w rs t = (Inr (), t\<lparr>effects := effects t @ logs\<rparr>)"
    if "self_record t = Some r" for w rs t
    using that assms(2,3) unfolding assms(4)
    by (simp add: move_to_public_queue_def bindA_def the_record_def emit_def returnA_def Let_def)
  let ?t = "s\<lparr>self_record := Some r,
      effects := effects s @ [Confirm ''Are you sure that you want to **approve** this suggestion?'']\<rparr>"
  have m2: "move_to_public_queue bt (Some author) (or_None reason) ?t =
      (Inr (), ?t\<lparr>effects := effects ?t @ logs\<rparr>)"
    by (rule move) simp
  have appr: "approve_command bt author r reason True s =
           (Inr (), s\<lparr>self_record := Some r,
              effects := effects s @ [Confirm ''Are you sure that you want to **approve** this suggestion?'']
                @ logs @ [BotLog ''force approved'', CtxSend ''Successfully approved'']\<rparr>)"
    using m2 by (simp add: approve_command_def bindA_def emit_def the_record_def returnA_def)
  have den: "deny bt who reason revoke s =
           (Inl (RuntimeError ''Error denying -- the uploaded emoji wasn't found.''),
            s\<lparr>effects := effects s @ [BotLog ''UPLOADED_EMOJI_NOT_FOUND deny'']\<rparr>)"
    using assms(1,2,3)
    by (simp add: deny_def bindA_def the_record_def emit_def raiseA_def Let_def)
  show ?thesis
    unfolding appr using move [OF assms(1)] den by simp
qed

text \<open>The theorem at the pending suggestion 1, after its emoji has left the cache.\<close>

theorem unresolved_emoji_promote_is_silent_witness:
  "council_approved pending_row = None \<and>
   \<not> get_emoji emoji_gone (emoji_id pending_row) \<and>
   approve_command emoji_gone 99 pending_row None True (world_of pending_row) =
     (Inr (), (world_of pending_row)\<lparr>effects :=
        [Confirm ''Are you sure that you want to **approve** this suggestion?'',
         BotLog ''UPLOADED_EMOJI_NOT_FOUND move to PQ'', BotLog ''force approved'',
         CtxSend ''Successfully approved'']\<rparr>) \<and>
   fst (deny emoji_gone (Some 99) None False (world_of pending_row)) =
     Inl (RuntimeError ''Error denying -- the uploaded emoji wasn't found.'')"
proof -
  have h1: "self_record (world_of pending_row) = Some pending_row"
    by (simp add: world_of_def)
  have h2: "council_approved pending_row = None"
    by (simp add: pending_row_def)
  have h3: "\<not> get_emoji emoji_gone (emoji_id pending_row)"
    by (simp add: emoji_gone_def)
  have u: "get_user emoji_gone (user_id pending_row)"
    by (simp add: emoji_gone_def demo_bot_def)
  have w: "(world_of pending_row)\<lparr>self_record := Some pending_row\<rparr> = world_of pending_row"
    "effects (world_of pending_row) = []"
    by (simp_all add: world_of_def)
  show ?thesis
    using unresolved_emoji_promote_is_silent [where who = "Some 99" and reason = None
        and author = 99 and revoke = False, OF h1 h2 h3 refl] h2 h3 u w
    by simp
qed

subsection \<open>The VS workflow\<close>

lemma create_temp_emotes_run:
  "create_temp_emotes es s =
     (Inr [fresh s..<fresh s + length es],
      s\<lparr>effects := effects s @ map CreateEmoji [fresh s..<fresh s + length es],
        fresh := fresh s + length es\<rparr>)"
proof (induction es arbitrary: s)
  case Nil
  then show ?case by (simp add: returnA_def)
next
  case (Cons e es)
  let ?s1 = "s\<lparr>fresh := Suc (fresh s), effects := effects s @ [CreateEmoji (fresh s)]\<rparr>"
  have u: "[fresh s..<fresh s + Suc (length es)] = fresh s # [Suc (fresh s)..<Suc (fresh s) + length es]"
    by (subst upt_rec) simp
  have "create_temp_emotes (e # es) s =
      bindA (create_temp_emotes es) (\<lambda>rest. returnA (fresh s # rest)) ?s1"
    by (simp add: bindA_def new_id_def emit_def)
  also have "\<dots> = (Inr (fresh s # [Suc (fresh s)..<Suc (fresh s) + length es]),
      ?s1\<lparr>effects := effects ?s1 @ map CreateEmoji [Suc (fresh s)..<Suc (fresh s) + length es],
        fresh := fresh ?s1 + length es\<rparr>)"
    by (simp add: bindA_def Cons.IH returnA_def)
  finally show ?case
    unfolding length_Cons u by simp
qed

lemma delete_temp_emotes_run:
  "delete_temp_emotes ids s = (Inr (), s\<lparr>effects := effects s @ map DeleteEmoji ids\<rparr>)"
proof (induction ids arbitrary: s)
  case Nil
  then show ?case by (simp add: returnA_def)
next
  case (Cons i ids)
  then show ?case by (simp add: bindA_def emit_def)
qed

lemma repeated_shortens: "\<not> distinct ys \<Longrightarrow> length (remdups ys) < length ys"
  using length_remdups_leq [of ys] length_remdups_eq [of ys] remdups_id_iff_distinct [of ys]
  by linarith

text \<open>
  Claim C8, as the code has it. Let the arguments of \<^verbatim>\<open>vs\<close> be what the converter makes
  of the request \<open>xs\<close>. A request with fewer than 2 or more than 6 entries, or in which
  an entry is repeated, is refused before anything is done: \<^verbatim>\<open>vs\<close> sends the caller one
  message and returns normally, without raising. The message is the reason of the first
  check that fails (too few, too many, repeated), or, when another VS holds the lock, the
  message that says so. Nothing else happens: no table is written, no temporary emoji is
  made.
\<close>

theorem vs_rejects_invalid_request:
  assumes "emoji = map conv xs"
    and "length xs < 2 \<or> 6 < length xs \<or> \<not> distinct xs"
  shows "vs bt locked emoji decision s =
     (Inr (), s\<lparr>effects := effects s @
        [CtxSend (if locked then ''A VS command is already being run, or has been run too recently.''
                  else if length xs < 2 then ''Need at least 2 emoji to do VS vote.''
                  else if 6 < length xs then ''Refusing to do VS vote of greater than 6 emoji.''
                  else ''Can't have a VS vote with the same emoji appearing more than once.'')]\<rparr>)"
proof -
  have len: "length emoji = length xs"
    by (simp add: assms(1))
  have dup: "length (remdups (map (\<lambda>x. fst (snd x)) emoji)) < length emoji"
    if "\<not> distinct xs"
  proof -
    have "\<not> distinct (map (\<lambda>x. fst (snd x)) emoji)"
      using that by (simp add: assms(1) distinct_map)
    from repeated_shortens [OF this] show ?thesis by simp
  qed
  show ?thesis
    using assms(2) dup unfolding vs_def len
    by (auto simp: emit_def)
qed

text \<open>Against claim C8 as stated (the request fails with a validation error that carries
  the specific reason): for the request (A, A, B) \<^verbatim>\<open>vs\<close> returns normally, no error is
  raised; and while another VS holds the lock, the one message sent for it is the lock's,
  not the reason why the request is invalid.\<close>

theorem vs_refusal_is_a_message:
  "fst (vs demo_bot False (map (\<lambda>r. (Some r, emoji_id r, ''url'', ''name''))
        [public_row, public_row, with_tally 1 0]) True (world_of public_row)) = Inr () \<and>
   vs demo_bot True (map (\<lambda>r. (Some r, emoji_id r, ''url'', ''name''))
        [public_row, public_row, with_tally 1 0]) True (world_of public_row) =
     (Inr (), (world_of public_row)\<lparr>effects :=
        [CtxSend ''A VS command is already being run, or has been run too recently.'']\<rparr>)"
  by (simp add: vs_def emit_def world_of_def public_row_def pending_row_def with_tally_def)

text \<open>The theorem at the request (A, A, B).\<close>

theorem vs_rejects_invalid_request_witness:
  "\<not> distinct [public_row, public_row, with_tally 1 0] \<and>
   vs demo_bot False (map (\<lambda>r. (Some r, emoji_id r, ''url'', ''name''))
        [public_row, public_row, with_tally 1 0]) True (world_of public_row) =
     (Inr (), (world_of public_row)\<lparr>effects :=
        [CtxSend ''Can't have a VS vote with the same emoji appearing more than once.'']\<rparr>)"
proof -
  have h: "length [public_row, public_row, with_tally 1 0] < 2 \<or>
      6 < length [public_row, public_row, with_tally 1 0] \<or>
      \<not> distinct [public_row, public_row, with_tally 1 0]"
    by simp
  have e: "effects (world_of public_row) = []"
    by (simp add: world_of_def)
  show ?thesis
    using vs_rejects_invalid_request [where conv = "\<lambda>r. (Some r, emoji_id r, ''url'', ''name'')"
        and bt = demo_bot and locked = False and decision = True and s = "world_of public_row",
        OF refl h] e
    by simp
qed

text \<open>
  Claim C9. When the operator refuses the staged comparison, or the confirmation times
  out (\<open>decision = False\<close>), \<^verbatim>\<open>vs\<close> has made one temporary emoji per argument and deletes
  each of them; nothing is sent to the public queue, no public message is removed, and
  the two tables are what they were, so every suggestion has the tally and the state it
  had.
\<close>

theorem vs_refused_discards_staging:
  assumes "\<not> locked" and "2 \<le> length emoji" and "length emoji \<le> 6"
    and "distinct (map (\<lambda>x. fst (snd x)) emoji)"
    and "temp = [fresh s..<fresh s + length emoji]"
  shows "vs bt locked emoji False s =
     (Inr (), s\<lparr>effects := effects s @ map CreateEmoji temp @ [Confirm ''Create a VS vote?'']
                   @ map DeleteEmoji temp,
                fresh := fresh s + length emoji\<rparr>) \<and>
     suggestions (snd (vs bt locked emoji False s)) = suggestions s \<and>
     council_votes (snd (vs bt locked emoji False s)) = council_votes s"
proof -
  have d: "\<not> length (remdups (map (\<lambda>x. fst (snd x)) emoji)) < length emoji"
    using assms(4) by (simp add: distinct_remdups_id)
  have run: "vs bt locked emoji False s =
     (Inr (), s\<lparr>effects := effects s @ map CreateEmoji temp @ [Confirm ''Create a VS vote?'']
                   @ map DeleteEmoji temp,
                fresh := fresh s + length emoji\<rparr>)"
    using assms(1,2,3) d unfolding vs_def assms(5)
    by (simp add: bindA_def create_temp_emotes_run emit_def delete_temp_emotes_run)
  show ?thesis unfolding run by simp
qed

text \<open>The theorem at three arguments, the first of them suggestion 1 in the public
  queue.\<close>

theorem vs_refused_discards_staging_witness:
  "distinct (map (\<lambda>x. fst (snd x)) three_entries) \<and>
   vs demo_bot False three_entries False (world_of public_row) =
     (Inr (), (world_of public_row)\<lparr>effects :=
        [CreateEmoji 500, CreateEmoji 501, CreateEmoji 502, Confirm ''Create a VS vote?'',
         DeleteEmoji 500, DeleteEmoji 501, DeleteEmoji 502], fresh := 503\<rparr>) \<and>
   suggestions (snd (vs demo_bot False three_entries False (world_of public_row))) = [public_row]"
proof -
  have h1: "\<not> False" by simp
  have h2: "2 \<le> length three_entries" "length three_entries \<le> 6"
    by (simp_all add: three_entries_def)
  have h3: "distinct (map (\<lambda>x. fst (snd x)) three_entries)"
    by (simp add: three_entries_def)
  have f: "fresh (world_of public_row) = 500" "effects (world_of public_row) = []"
    "suggestions (world_of public_row) = [public_row]" "length three_entries = 3"
    by (simp_all add: world_of_def three_entries_def)
  have u: "[500..<503] = [500, 501, 502 :: nat]"
    by (simp add: upt_rec)
  show ?thesis
    using vs_refused_discards_staging [where bt = demo_bot and s = "world_of public_row",
        OF h1 h2 h3 refl] h3 f
    by (simp add: u)
qed

end
